theory Spec2Isabelle
  imports Main "HOL-Library.Sublist"
begin

section \<open>tukit: the command-line driver of transactional-update\<close>

text \<open>
  A shallow embedding of \<^verbatim>\<open>src/tukit/tukit.cpp\<close>: option parsing, the command dispatch
  \<^verbatim>\<open>TUKit::processCommand\<close>, the scoped \<^verbatim>\<open>Lock\<close>, the signal handler \<^verbatim>\<open>interrupt\<close> and
  the constructor \<^verbatim>\<open>TUKit::TUKit\<close>.  Every effect of the program (output, logging, the lock
  file, signal dispositions, snapshot operations) is a change of an explicit \<open>world\<close>
  value and is recorded, in program order, in its \<open>trace\<close>.  A C++ exception is the
  \<open>Inl\<close> branch of a result; destructors are run explicitly on every exit of a scope.
\<close>

subsection \<open>Exceptions, events, the world\<close>

datatype error =
    InvalidArgument string          \<comment> \<open>\<^verbatim>\<open>std::invalid_argument{msg}\<close>\<close>
  | RuntimeError string             \<comment> \<open>\<^verbatim>\<open>std::runtime_error{msg}\<close>\<close>
  | ThrowInt int                    \<comment> \<open>\<^verbatim>\<open>throw ret;\<close> in the constructor\<close>
  | NullString                      \<comment> \<open>a \<^verbatim>\<open>std::string\<close> built from \<^verbatim>\<open>nullptr\<close>\<close>
  | SnapshotCreationError
  | UnknownTransactionError
  | FinalizeError
  | PreconditionError
  | RunnerError

datatype TULogLevel = ERROR | INFO | DEBUG

datatype sighandler = SIG_DFL | Handler_interrupt

datatype lock_holder = Nobody | Self | Other

datatype run_result = Exited int | RunnerFailed

datatype event =
    Signal_installed int                     \<comment> \<open>\<^verbatim>\<open>signal(sig, interrupt)\<close>\<close>
  | DisplayHelp                              \<comment> \<open>the usage text of \<^verbatim>\<open>displayHelp\<close> on stdout\<close>
  | Stdout string                            \<comment> \<open>one line written to \<^verbatim>\<open>cout\<close>\<close>
  | Log TULogLevel string                    \<comment> \<open>a call of \<^verbatim>\<open>tulog.info\<close> or \<^verbatim>\<open>tulog.debug\<close>\<close>
  | Lock_open | Lock_lockf | Lock_close | Lock_remove
  | Call_init string | Call_resume string | Call_execute "string list"
  | Call_callExt "string list" | Call_finalize | Call_keep | Call_getSnapshot
  | Store_createSnapshot string | Store_mountPathOf string
  | Store_setDefault string | Store_delete string
  | Run "string option" "string list"        \<comment> \<open>ProcessRunner: chroot directory, command\<close>

record world =
  trace :: "event list"
  level :: TULogLevel                        \<comment> \<open>\<^verbatim>\<open>tulog.level\<close>\<close>
  handlers :: "int \<Rightarrow> sighandler"            \<comment> \<open>signal dispositions of the process\<close>
  lockfile_exists :: bool
  lockfile_fd_open :: bool
  lock_held_by :: lock_holder
  snapshots :: "string \<rightharpoonup> string"             \<comment> \<open>existing snapshots and their mount paths\<close>
  finalized :: "string set"
  defaultSnapshot :: string

text \<open>
  What the program takes from outside the file: the macro \<^verbatim>\<open>VERSION\<close>, the configured
  \<^verbatim>\<open>LOCKFILE\<close> path, the text of \<^verbatim>\<open>strerror(errno)\<close>, the descriptor \<^verbatim>\<open>open\<close> returns, the
  successive results of \<^verbatim>\<open>getopt_long\<close>, and the answers of the two external collaborators
  (snapshot backend, process runner).
\<close>

record env =
  VERSION :: string
  LOCKFILE :: string
  strerror_errno :: string
  open_result :: int
  getopt_results :: "(char \<times> string option) list"
  optind_final :: int
  createSnapshot_result :: "string \<Rightarrow> (string \<times> string) option"
  setDefault_succeeds :: "string \<Rightarrow> bool"
  run_child :: "string option \<Rightarrow> string list \<Rightarrow> run_result"

definition emit :: "event \<Rightarrow> world \<Rightarrow> world" where
  "emit e w = w\<lparr>trace := trace w @ [e]\<rparr>"

definition SIGHUP :: int where "SIGHUP = 1"
definition SIGINT :: int where "SIGINT = 2"
definition SIGQUIT :: int where "SIGQUIT = 3"
definition SIGTERM :: int where "SIGTERM = 15"

subsection \<open>\<^verbatim>\<open>std::to_string(int)\<close>\<close>

fun dec :: "nat \<Rightarrow> string" where
  "dec n = (if n < 10 then [''0123456789'' ! n] else dec (n div 10) @ [''0123456789'' ! (n mod 10)])"

declare dec.simps [simp del]

definition to_string :: "int \<Rightarrow> string" where
  "to_string i = (if i < 0 then CHR ''-'' # dec (nat (- i)) else dec (nat i))"

subsection \<open>The snapshot backend and the process runner\<close>

text \<open>
  SnapshotStore is an external collaborator that is not under \<^verbatim>\<open>src/\<close>; section 2 of the
  spec gives its operations \<open>createSnapshot(base) -> (id, mountPath)\<close>, \<open>delete(id)\<close>,
  \<open>setDefault(id)\<close> and \<open>mountPathOf(id) -> path\<close>.  Each records its invocation in the
  trace.
\<close>

text \<open>
  Modelled from the spec: \<open>SnapshotStore.createSnapshot\<close> is not under \<^verbatim>\<open>src/\<close>.  It creates
  a new snapshot from the base and yields its identifier and mount path (section 2); it
  can fail (section 4.1, \<open>init\<close>).  The identifier, the path and the failure are read
  from \<open>env\<close>.
\<close>

definition createSnapshot :: "env \<Rightarrow> string \<Rightarrow> world \<Rightarrow> (string \<times> string) option \<times> world" where
  "createSnapshot E base w =
     (case createSnapshot_result E base of
        None \<Rightarrow> (None, emit (Store_createSnapshot base) w)
      | Some (i, p) \<Rightarrow>
          (Some (i, p), (emit (Store_createSnapshot base) w)\<lparr>snapshots := (snapshots w)(i \<mapsto> p)\<rparr>))"

text \<open>
  Modelled from the spec: \<open>SnapshotStore.delete\<close> is not under \<^verbatim>\<open>src/\<close>.  It deletes the
  snapshot (section 2); the spec gives it no failure.
\<close>

definition delete :: "string \<Rightarrow> world \<Rightarrow> world" where
  "delete i w = (emit (Store_delete i) w)\<lparr>snapshots := (snapshots w)(i := None)\<rparr>"

text \<open>
  Modelled from the spec: \<open>SnapshotStore.setDefault\<close> is not under \<^verbatim>\<open>src/\<close>.  It marks the
  snapshot as the default (section 2), which finalizes it; it can fail (section 4.1,
  \<open>finalize\<close>), and then changes nothing.  Whether it fails is read from \<open>env\<close>.
\<close>

definition setDefault :: "env \<Rightarrow> string \<Rightarrow> world \<Rightarrow> bool \<times> world" where
  "setDefault E i w =
     (if setDefault_succeeds E i
      then (True, (emit (Store_setDefault i) w)\<lparr>defaultSnapshot := i, finalized := insert i (finalized w)\<rparr>)
      else (False, emit (Store_setDefault i) w))"

text \<open>
  Modelled from the spec: \<open>SnapshotStore.mountPathOf\<close> is not under \<^verbatim>\<open>src/\<close>.  It resolves
  the mount path of an existing snapshot that has not been finalized (sections 2 and 4.1,
  \<open>resume\<close>).
\<close>

definition mountPathOf :: "string \<Rightarrow> world \<Rightarrow> string option \<times> world" where
  "mountPathOf i w =
     (if i \<in> finalized w then None else snapshots w i, emit (Store_mountPathOf i) w)"

text \<open>
  Modelled from the spec: ProcessRunner is an external collaborator that is not under
  \<^verbatim>\<open>src/\<close>; it spawns the command, in a chroot when a directory is given, and returns the
  child's exit status (section 2).  An empty command stands for the interactive login
  shell.  The child is a separate process: what it does to the machine is not part of
  this model, only its exit status is.
\<close>

definition runProcess :: "env \<Rightarrow> string option \<Rightarrow> string list \<Rightarrow> world \<Rightarrow> run_result \<times> world" where
  "runProcess E root cmd w = (run_child E root cmd, emit (Run root cmd) w)"

subsection \<open>The transaction engine\<close>

text \<open>
  The entity \<open>Transaction\<close> of section 3 of the spec.  An operation called outside its
  precondition raises \<open>PreconditionError\<close>; the driver never does that.  Each operation
  records its invocation in the trace.
\<close>

datatype tstate = Uninitialized | Open | Finalized | Discarded

record transaction =
  snapshot_id :: "string option"
  state :: tstate
  basis :: string
  mountPath :: string
  retain :: bool

type_synonym 'a comp = "transaction \<Rightarrow> world \<Rightarrow> (error + 'a) \<times> transaction \<times> world"

text \<open>
  Modelled from the spec: class \<^verbatim>\<open>TransactionalUpdate::Transaction\<close> (\<^verbatim>\<open>Transaction.hpp\<close>) is
  not under \<^verbatim>\<open>src/\<close>.  \<open>Transaction{}\<close> is the value before \<open>init\<close> or \<open>resume\<close>: no
  identifier, state \<open>Uninitialized\<close> (section 3).
\<close>

definition new_transaction :: transaction where
  "new_transaction =
     \<lparr>snapshot_id = None, state = Uninitialized, basis = [], mountPath = [], retain = False\<rparr>"

text \<open>
  Modelled from the spec: \<^verbatim>\<open>Transaction::init\<close> is not under \<^verbatim>\<open>src/\<close>.  Section 4.1:
  precondition \<open>state = Uninitialized\<close>; calls \<open>createSnapshot(basis)\<close> to obtain \<open>id\<close> and
  \<open>mountPath\<close>; sets \<open>state = Open\<close>, \<open>retain = false\<close>; fails with
  \<open>SnapshotCreationError\<close> when the backend cannot create a snapshot.
\<close>

definition init :: "env \<Rightarrow> string \<Rightarrow> unit comp" where
  "init E base tx w =
     (let w1 = emit (Call_init base) w in
      if state tx \<noteq> Uninitialized then (Inl PreconditionError, tx, w1)
      else
        (case createSnapshot E base w1 of
           (None, w2) \<Rightarrow> (Inl SnapshotCreationError, tx, w2)
         | (Some (i, p), w2) \<Rightarrow>
             (Inr (),
              tx\<lparr>snapshot_id := Some i, state := Open, basis := base, mountPath := p,
                 retain := False\<rparr>,
              w2)))"

text \<open>
  Modelled from the spec: \<^verbatim>\<open>Transaction::resume\<close> is not under \<^verbatim>\<open>src/\<close>.  Section 4.1:
  precondition \<open>state = Uninitialized\<close> and a non-empty \<open>id\<close>; resolves \<open>mountPath\<close> with
  \<open>mountPathOf(id)\<close>; sets \<open>state = Open\<close>; fails with \<open>UnknownTransactionError\<close> when \<open>id\<close>
  does not resolve to an existing, not yet finalized snapshot.

  On \<open>retain\<close> the spec contradicts itself.  Section 4.1 says that \<open>resume\<close> sets \<open>retain =
  true\<close>, and that disposal deletes only when \<open>retain = false\<close>; then \<open>abort\<close>, which the
  source implements as \<open>resume\<close> followed by the end of the scope, could never delete.
  Section 3 ("if neither finalize nor keep was invoked before the owning scope ends, the
  engine must delete the underlying snapshot"), the command mapping of section 4.1 and
  the table of section 6 say that it does, and so does the source: its help text reads
  "abort <ID>: Deletes the given snapshot again", and its \<open>call\<close> and \<open>callext\<close> branches
  invoke \<open>keep\<close> after \<open>resume\<close> so that the snapshot is not deleted.  The source is
  followed: \<open>resume\<close> leaves \<open>retain\<close> false, and only \<open>keep\<close> sets it.  The wording of
  section 4.1 is kept beside it as \<open>resume_retaining\<close>.
\<close>

definition resume :: "string \<Rightarrow> unit comp" where
  "resume i tx w =
     (let w1 = emit (Call_resume i) w in
      if state tx \<noteq> Uninitialized \<or> i = [] then (Inl PreconditionError, tx, w1)
      else
        (case mountPathOf i w1 of
           (None, w2) \<Rightarrow> (Inl UnknownTransactionError, tx, w2)
         | (Some p, w2) \<Rightarrow>
             (Inr (), tx\<lparr>snapshot_id := Some i, state := Open, mountPath := p, retain := False\<rparr>, w2)))"

text \<open>
  Modelled from the spec: \<^verbatim>\<open>Transaction::resume\<close> is not under \<^verbatim>\<open>src/\<close>.  This is \<open>resume\<close> with
  the one difference that it sets \<open>retain = true\<close>, as section 4.1 words it.  No function
  of the driver uses it.
\<close>

definition resume_retaining :: "string \<Rightarrow> unit comp" where
  "resume_retaining i tx w =
     (let w1 = emit (Call_resume i) w in
      if state tx \<noteq> Uninitialized \<or> i = [] then (Inl PreconditionError, tx, w1)
      else
        (case mountPathOf i w1 of
           (None, w2) \<Rightarrow> (Inl UnknownTransactionError, tx, w2)
         | (Some p, w2) \<Rightarrow>
             (Inr (), tx\<lparr>snapshot_id := Some i, state := Open, mountPath := p, retain := True\<rparr>, w2)))"

text \<open>
  Modelled from the spec: \<^verbatim>\<open>Transaction::execute\<close> is not under \<^verbatim>\<open>src/\<close>.  Section 4.1:
  precondition \<open>state = Open\<close>; runs the command inside a chroot rooted at \<open>mountPath\<close>
  (the login shell when the command is empty); returns the child's exit status; does not
  change \<open>state\<close>.  A failure of the runner itself propagates (section 7).
\<close>

definition execute :: "env \<Rightarrow> string list \<Rightarrow> int comp" where
  "execute E cmd tx w =
     (let w1 = emit (Call_execute cmd) w in
      if state tx \<noteq> Open then (Inl PreconditionError, tx, w1)
      else
        (case runProcess E (Some (mountPath tx)) cmd w1 of
           (RunnerFailed, w2) \<Rightarrow> (Inl RunnerError, tx, w2)
         | (Exited status, w2) \<Rightarrow> (Inr status, tx, w2)))"

text \<open>
  Modelled from the spec: the substitution made by \<^verbatim>\<open>Transaction::callExt\<close> is not under
  \<^verbatim>\<open>src/\<close>.  Section 4.1: every placeholder token of the argument list is replaced by
  \<open>mountPath\<close>.  The placeholder is \<open>{}\<close> (the help text of the source).
\<close>

definition substitute :: "string \<Rightarrow> string list \<Rightarrow> string list" where
  "substitute p cmd = map (\<lambda>a. if a = ''{}'' then p else a) cmd"

text \<open>
  Modelled from the spec: \<^verbatim>\<open>Transaction::callExt\<close> is not under \<^verbatim>\<open>src/\<close>.  Section 4.1:
  precondition \<open>state = Open\<close>; runs the command without a chroot, after the substitution;
  returns the child's exit status.
\<close>

definition callExt :: "env \<Rightarrow> string list \<Rightarrow> int comp" where
  "callExt E cmd tx w =
     (let w1 = emit (Call_callExt cmd) w in
      if state tx \<noteq> Open then (Inl PreconditionError, tx, w1)
      else
        (case runProcess E None (substitute (mountPath tx) cmd) w1 of
           (RunnerFailed, w2) \<Rightarrow> (Inl RunnerError, tx, w2)
         | (Exited status, w2) \<Rightarrow> (Inr status, tx, w2)))"

text \<open>
  Modelled from the spec: \<^verbatim>\<open>Transaction::finalize\<close> is not under \<^verbatim>\<open>src/\<close>.  Section 4.1:
  precondition \<open>state = Open\<close>; calls \<open>setDefault(id)\<close>; sets \<open>state = Finalized\<close>; when
  \<open>setDefault\<close> fails, \<open>state\<close> remains \<open>Open\<close> and a \<open>FinalizeError\<close> is surfaced.
\<close>

definition finalize :: "env \<Rightarrow> unit comp" where
  "finalize E tx w =
     (let w1 = emit Call_finalize w in
      case (state tx, snapshot_id tx) of
        (Open, Some i) \<Rightarrow>
          (case setDefault E i w1 of
             (True, w2) \<Rightarrow> (Inr (), tx\<lparr>state := Finalized\<rparr>, w2)
           | (False, w2) \<Rightarrow> (Inl FinalizeError, tx, w2))
      | _ \<Rightarrow> (Inl PreconditionError, tx, w1))"

text \<open>
  Modelled from the spec: \<^verbatim>\<open>Transaction::keep\<close> is not under \<^verbatim>\<open>src/\<close>.  Section 4.1:
  precondition \<open>state = Open\<close>; sets \<open>retain = true\<close> without changing \<open>state\<close>.
\<close>

definition keep :: "unit comp" where
  "keep tx w =
     (let w1 = emit Call_keep w in
      if state tx \<noteq> Open then (Inl PreconditionError, tx, w1)
      else (Inr (), tx\<lparr>retain := True\<rparr>, w1))"

text \<open>
  Modelled from the spec: \<^verbatim>\<open>Transaction::getSnapshot\<close> is not under \<^verbatim>\<open>src/\<close>.  Section 4.1:
  returns \<open>id\<close>; callable once \<open>state\<close> is not \<open>Uninitialized\<close>.
\<close>

definition getSnapshot :: "string comp" where
  "getSnapshot tx w =
     (let w1 = emit Call_getSnapshot w in
      case snapshot_id tx of
        None \<Rightarrow> (Inl PreconditionError, tx, w1)
      | Some i \<Rightarrow> (Inr i, tx, w1))"

text \<open>
  Modelled from the spec: the destructor of \<^verbatim>\<open>Transaction\<close> is not under \<^verbatim>\<open>src/\<close>.
  Section 4.1, implicit disposal on scope exit: if \<open>state = Open\<close> and \<open>retain = false\<close>,
  call \<open>delete(id)\<close> unconditionally, also when an error propagates; the transaction is
  then \<open>Discarded\<close> (section 3).
\<close>

definition dispose :: "transaction \<Rightarrow> world \<Rightarrow> transaction \<times> world" where
  "dispose tx w =
     (case (state tx, retain tx, snapshot_id tx) of
        (Open, False, Some i) \<Rightarrow> (tx\<lparr>state := Discarded\<rparr>, delete i w)
      | _ \<Rightarrow> (tx, w))"

subsection \<open>Sequencing\<close>

definition and_then :: "'a comp \<Rightarrow> ('a \<Rightarrow> 'b comp) \<Rightarrow> 'b comp" where
  "and_then m f tx w =
     (case m tx w of
        (Inl e, tx1, w1) \<Rightarrow> (Inl e, tx1, w1)
      | (Inr x, tx1, w1) \<Rightarrow> f x tx1 w1)"

definition return :: "'a \<Rightarrow> 'a comp" where
  "return x tx w = (Inr x, tx, w)"

definition throw :: "error \<Rightarrow> 'a comp" where
  "throw e tx w = (Inl e, tx, w)"

definition effect :: "(world \<Rightarrow> world) \<Rightarrow> unit comp" where
  "effect f tx w = (Inr (), tx, f w)"

subsection \<open>\<^verbatim>\<open>TUKit::displayHelp\<close> and \<^verbatim>\<open>TUKit::parseOptions\<close>\<close>

definition displayHelp :: "world \<Rightarrow> world" where
  "displayHelp w = emit DisplayHelp w"

text \<open>
  The loop of \<^verbatim>\<open>parseOptions\<close> over the results of \<^verbatim>\<open>getopt_long\<close>: each result is the
  option character \<open>c\<close> and \<^verbatim>\<open>optarg\<close>; the list ends where \<^verbatim>\<open>getopt_long\<close> returns -1, and
  \<^verbatim>\<open>optind\<close> is then \<open>optind_final\<close>.  The function returns its result, the member
  \<^verbatim>\<open>baseSnapshot\<close> and the world.
\<close>

fun parseOptions_loop ::
  "env \<Rightarrow> (char \<times> string option) list \<Rightarrow> string \<Rightarrow> world \<Rightarrow> int \<times> string \<times> world" where
  "parseOptions_loop E [] baseSnapshot w = (optind_final E, baseSnapshot, w)"
| "parseOptions_loop E ((c, optarg) # later) baseSnapshot w =
     (if c = CHR ''c'' then
        parseOptions_loop E later (case optarg of Some a \<Rightarrow> a | None \<Rightarrow> ''default'') w
      else if c = CHR ''h'' then (0, baseSnapshot, displayHelp w)
      else if c = CHR ''q'' then parseOptions_loop E later baseSnapshot (w\<lparr>level := ERROR\<rparr>)
      else if c = CHR ''v'' then parseOptions_loop E later baseSnapshot (w\<lparr>level := DEBUG\<rparr>)
      else if c = CHR ''V'' then (0, baseSnapshot, emit (Stdout (VERSION E)) w)
      else if c = CHR ''?'' then (- 1, baseSnapshot, displayHelp w)
      else parseOptions_loop E later baseSnapshot w)"

definition parseOptions :: "env \<Rightarrow> string \<Rightarrow> world \<Rightarrow> int \<times> string \<times> world" where
  "parseOptions E baseSnapshot w = parseOptions_loop E (getopt_results E) baseSnapshot w"

subsection \<open>\<^verbatim>\<open>TUKit::processCommand\<close>\<close>

definition quoted :: "string \<Rightarrow> string" where
  "quoted s = CHR 0x27 # s @ [CHR 0x27]"

text \<open>
  \<open>argv\<close> is the null-terminated array as the list of its strings, so \<^verbatim>\<open>argv[0] == nullptr\<close>
  is \<open>argv = []\<close>, \<^verbatim>\<open>&argv[1]\<close> is the tail, and \<^verbatim>\<open>argv[1] == nullptr\<close> is an empty tail.
  The branches \<open>close\<close> and \<open>abort\<close> pass \<^verbatim>\<open>argv[1]\<close> to \<open>resume\<close> without that test; building
  the identifier string from a null pointer is undefined in C++ (libstdc++ raises
  \<^verbatim>\<open>std::logic_error\<close>), and the model raises \<open>NullString\<close> there, before \<open>resume\<close> runs.
  The body runs on the local \<open>transaction\<close>; \<open>processCommand\<close> adds the destructor, which
  runs on every way out of the function.
\<close>

definition processCommand_body :: "env \<Rightarrow> string \<Rightarrow> string list \<Rightarrow> int comp" where
  "processCommand_body E baseSnapshot argv =
     (case argv of
        [] \<Rightarrow> throw (InvalidArgument ''Missing command. See --help for usage information.'')
      | arg # rest \<Rightarrow>
          if arg = ''execute'' then
            and_then (init E baseSnapshot) (\<lambda>_.
            and_then (execute E rest) (\<lambda>status.
              if status = 0 then and_then (finalize E) (\<lambda>_. return 0)
              else throw (RuntimeError
                     (''Application returned with exit status '' @ to_string status))))
          else if arg = ''open'' then
            and_then (init E baseSnapshot) (\<lambda>_.
            and_then getSnapshot (\<lambda>i.
            and_then (effect (emit (Stdout (''ID: '' @ i)))) (\<lambda>_.
            and_then keep (\<lambda>_. return 0))))
          else if arg = ''call'' then
            (case rest of
               [] \<Rightarrow>
                 and_then (effect displayHelp) (\<lambda>_.
                 throw (InvalidArgument (''Missing argument for '' @ quoted ''call'')))
             | i # cmd \<Rightarrow>
                 and_then (resume i) (\<lambda>_.
                 and_then (execute E cmd) (\<lambda>status.
                 and_then keep (\<lambda>_. return status))))
          else if arg = ''callext'' then
            (case rest of
               [] \<Rightarrow>
                 and_then (effect displayHelp) (\<lambda>_.
                 throw (InvalidArgument (''Missing argument for '' @ quoted ''callext'')))
             | i # cmd \<Rightarrow>
                 and_then (resume i) (\<lambda>_.
                 and_then (callExt E cmd) (\<lambda>status.
                 and_then keep (\<lambda>_. return status))))
          else if arg = ''close'' then
            (case rest of
               [] \<Rightarrow> throw NullString
             | i # _ \<Rightarrow>
                 and_then (resume i) (\<lambda>_.
                 and_then (finalize E) (\<lambda>_. return 0)))
          else if arg = ''abort'' then
            (case rest of
               [] \<Rightarrow> throw NullString
             | i # _ \<Rightarrow> and_then (resume i) (\<lambda>_. return 0))
          else
            and_then (effect displayHelp) (\<lambda>_.
            throw (InvalidArgument (''Unknown command or option '' @ quoted arg @ ''.''))))"

definition processCommand :: "env \<Rightarrow> string \<Rightarrow> string list \<Rightarrow> world \<Rightarrow> (error + int) \<times> world" where
  "processCommand E baseSnapshot argv w =
     (case processCommand_body E baseSnapshot argv new_transaction w of
        (r, tx, w1) \<Rightarrow> (r, snd (dispose tx w1)))"

subsection \<open>\<^verbatim>\<open>Lock\<close>\<close>

text \<open>
  The four system calls on the lock file.  \<^verbatim>\<open>open\<close> with \<^verbatim>\<open>O_CREAT\<close> returns the descriptor
  given by \<open>env\<close>; when it is not negative the file exists and the descriptor is open.
  \<^verbatim>\<open>lockf\<close> with \<^verbatim>\<open>F_TLOCK\<close> returns -1 when another process holds the lock and 0, taking
  the lock, otherwise.  \<^verbatim>\<open>close\<close> releases a lock held through the descriptor; \<^verbatim>\<open>remove\<close>
  unlinks the file.
\<close>

definition sys_open :: "env \<Rightarrow> world \<Rightarrow> int \<times> world" where
  "sys_open E w =
     (if open_result E < 0 then (open_result E, emit Lock_open w)
      else (open_result E, (emit Lock_open w)\<lparr>lockfile_exists := True, lockfile_fd_open := True\<rparr>))"

definition sys_lockf :: "world \<Rightarrow> int \<times> world" where
  "sys_lockf w =
     (if lock_held_by w = Other then (- 1, emit Lock_lockf w)
      else (0, (emit Lock_lockf w)\<lparr>lock_held_by := Self\<rparr>))"

definition sys_close :: "world \<Rightarrow> world" where
  "sys_close w =
     (emit Lock_close w)\<lparr>lockfile_fd_open := False,
        lock_held_by := (if lock_held_by w = Self then Nobody else lock_held_by w)\<rparr>"

definition sys_remove :: "world \<Rightarrow> world" where
  "sys_remove w = (emit Lock_remove w)\<lparr>lockfile_exists := False\<rparr>"

text \<open>
  The constructor returns the member \<^verbatim>\<open>lockfile\<close>.  The \<^verbatim>\<open>remove\<close> written after the second
  \<^verbatim>\<open>throw\<close> is never reached, and a constructor that throws leaves no object whose
  destructor could run.
\<close>

definition Lock_ctor :: "env \<Rightarrow> world \<Rightarrow> (error + int) \<times> world" where
  "Lock_ctor E w =
     (case sys_open E w of
        (lockfile, w1) \<Rightarrow>
          if lockfile < 0 then
            (Inl (RuntimeError (''Could not create lock file '' @ quoted (LOCKFILE E) @ '': ''
                    @ strerror_errno E)), w1)
          else
            (case sys_lockf w1 of
               (status, w2) \<Rightarrow>
                 if status \<noteq> 0 then
                   (Inl (RuntimeError (''Another instance of tukit is already running: ''
                           @ strerror_errno E)), w2)
                 else (Inr lockfile, w2)))"

definition Lock_dtor :: "world \<Rightarrow> world" where
  "Lock_dtor w = sys_remove (sys_close w)"

subsection \<open>\<^verbatim>\<open>interrupt\<close> and the constructor \<^verbatim>\<open>TUKit::TUKit\<close>\<close>

definition interrupt :: "int \<Rightarrow> world \<Rightarrow> world" where
  "interrupt signal w = emit (Log DEBUG (''tukit: Received signal '' @ to_string signal)) w"

definition install_handler :: "int \<Rightarrow> world \<Rightarrow> world" where
  "install_handler sig w =
     (emit (Signal_installed sig) w)\<lparr>handlers := (handlers w)(sig := Handler_interrupt)\<rparr>"

text \<open>
  Delivery of a signal to the process: with the default disposition these signals end
  the process (\<open>None\<close>); with the handler installed, the handler runs and the process goes
  on.
\<close>

definition deliver :: "int \<Rightarrow> world \<Rightarrow> world option" where
  "deliver sig w =
     (case handlers w sig of SIG_DFL \<Rightarrow> None | Handler_interrupt \<Rightarrow> Some (interrupt sig w))"

definition startup :: "world \<Rightarrow> world" where
  "startup w =
     (install_handler SIGTERM (install_handler SIGQUIT (install_handler SIGHUP
        (install_handler SIGINT w))))\<lparr>level := INFO\<rparr>"

text \<open>
  The constructor.  \<open>baseSnapshot0\<close> is the initial value of the member \<^verbatim>\<open>baseSnapshot\<close>
  (declared in \<^verbatim>\<open>tukit.hpp\<close>); \<open>argv\<close> holds \<^verbatim>\<open>argv[0] .. argv[argc - 1]\<close>.  The local \<open>lock\<close>
  is destroyed on every way out once it has been constructed.
\<close>

definition TUKit :: "env \<Rightarrow> string \<Rightarrow> string list \<Rightarrow> world \<Rightarrow> (error + unit) \<times> world" where
  "TUKit E baseSnapshot0 argv w =
     (case parseOptions E baseSnapshot0 (startup w) of
        (ret, baseSnapshot, w1) \<Rightarrow>
          if ret \<le> 0 then (Inl (ThrowInt ret), w1)
          else
            (case Lock_ctor E w1 of
               (Inl e, w2) \<Rightarrow> (Inl e, w2)
             | (Inr lock, w2) \<Rightarrow>
                 (let w3 = emit (Log INFO (''tukit '' @ VERSION E @ '' started'')) w2;
                      w4 = emit (Log INFO (''Options: '' @ concat (map (\<lambda>a. a @ '' '') (tl argv)))) w3
                  in case processCommand E baseSnapshot (drop (nat ret) argv) w4 of
                       (Inl e, w5) \<Rightarrow> (Inl e, Lock_dtor w5)
                     | (Inr ret2, w5) \<Rightarrow>
                         if ret2 \<noteq> 0 then (Inl (ThrowInt ret2), Lock_dtor w5)
                         else (Inr (), Lock_dtor (emit (Log INFO ''Transaction completed.'') w5)))))"

subsection \<open>Classes of events, frames, and sample machines\<close>

fun is_signal_event :: "event \<Rightarrow> bool" where
  "is_signal_event (Signal_installed _) = True"
| "is_signal_event _ = False"

text \<open>Calls of the transaction engine, snapshot operations and child processes.\<close>

fun is_engine_event :: "event \<Rightarrow> bool" where
  "is_engine_event (Signal_installed _) = False"
| "is_engine_event DisplayHelp = False"
| "is_engine_event (Stdout _) = False"
| "is_engine_event (Log _ _) = False"
| "is_engine_event Lock_open = False"
| "is_engine_event Lock_lockf = False"
| "is_engine_event Lock_close = False"
| "is_engine_event Lock_remove = False"
| "is_engine_event _ = True"

text \<open>\<open>quiet w w'\<close>: from \<open>w\<close> to \<open>w'\<close> the trace only grew, by events that install no signal
  handler, and the signal dispositions are the same.\<close>

definition quiet :: "world \<Rightarrow> world \<Rightarrow> bool" where
  "quiet w w' \<longleftrightarrow>
     handlers w' = handlers w \<and> prefix (trace w) (trace w') \<and>
     filter is_signal_event (trace w') = filter is_signal_event (trace w)"

definition quiet_comp :: "'a comp \<Rightarrow> bool" where
  "quiet_comp m \<longleftrightarrow> (\<forall>tx w. quiet w (snd (snd (m tx w))))"

text \<open>\<open>idle w w'\<close>: from \<open>w\<close> to \<open>w'\<close> the snapshot store and the holder of the lock are the
  same and no engine event was added.\<close>

definition idle :: "world \<Rightarrow> world \<Rightarrow> bool" where
  "idle w w' \<longleftrightarrow>
     snapshots w' = snapshots w \<and> finalized w' = finalized w \<and>
     defaultSnapshot w' = defaultSnapshot w \<and> lock_held_by w' = lock_held_by w \<and>
     filter is_engine_event (trace w') = filter is_engine_event (trace w)"

text \<open>A machine whose default snapshot is 1 and on which transaction 9 is open; the same
  machine while another instance of the program holds the lock.\<close>

definition world9 :: world where
  "world9 =
     \<lparr>trace = [], level = ERROR, handlers = (\<lambda>_. SIG_DFL), lockfile_exists = False,
      lockfile_fd_open = False, lock_held_by = Nobody, snapshots = [''9'' \<mapsto> ''/mnt/9''],
      finalized = {}, defaultSnapshot = ''1''\<rparr>"

definition world_locked :: world where
  "world_locked = world9\<lparr>lockfile_exists := True, lock_held_by := Other\<rparr>"

text \<open>An environment in which every external operation succeeds: the backend creates
  snapshot 7, the child exits with 0; and variations of it.\<close>

definition env_ok :: env where
  "env_ok =
     \<lparr>VERSION = ''4.0'', LOCKFILE = ''/var/run/tukit.lock'', strerror_errno = ''EAGAIN'',
      open_result = 3, getopt_results = [], optind_final = 1,
      createSnapshot_result = (\<lambda>_. Some (''7'', ''/mnt/7'')),
      setDefault_succeeds = (\<lambda>_. True), run_child = (\<lambda>_ _. Exited 0)\<rparr>"

definition env_child_fails :: env where
  "env_child_fails = env_ok\<lparr>run_child := (\<lambda>_ _. Exited 1)\<rparr>"

definition env_setDefault_fails :: env where
  "env_setDefault_fails = env_ok\<lparr>setDefault_succeeds := (\<lambda>_. False)\<rparr>"

definition env_verbose :: env where
  "env_verbose = env_ok\<lparr>getopt_results := [(CHR ''v'', None)], optind_final := 2\<rparr>"

definition env_help :: env where
  "env_help = env_ok\<lparr>getopt_results := [(CHR ''h'', None)], optind_final := 2\<rparr>"

definition env_open_fails :: env where
  "env_open_fails = env_ok\<lparr>open_result := - 1, strerror_errno := ''Permission denied''\<rparr>"

section \<open>Properties\<close>

lemmas store_defs =
  createSnapshot_def delete_def setDefault_def mountPathOf_def runProcess_def emit_def

lemmas engine_defs =
  init_def resume_def execute_def callExt_def finalize_def keep_def getSnapshot_def
  dispose_def new_transaction_def

lemmas seq_defs = and_then_def return_def throw_def effect_def

lemmas command_defs = processCommand_def processCommand_body_def displayHelp_def

lemmas lock_defs = Lock_ctor_def Lock_dtor_def sys_open_def sys_lockf_def sys_close_def
  sys_remove_def

subsection \<open>The command \<open>execute\<close>\<close>

text \<open>
  C1, as amended.  For every invocation of \<open>execute\<close> whose child exits with status 0 the
  engine calls \<open>finalize\<close> on the snapshot it created.  When the \<open>setDefault\<close> of that
  \<open>finalize\<close> succeeds, \<open>processCommand\<close> returns 0, the snapshot is the default snapshot,
  and it still exists: no delete was issued.  (When \<open>setDefault\<close> fails the run ends
  with the delete of implicit disposal.)
\<close>

theorem execute_zero_finalizes:
  assumes "createSnapshot_result E base = Some (i, p)"
    and "run_child E (Some p) cmd = Exited 0"
  shows "trace (snd (processCommand E base (''execute'' # cmd) w)) =
           trace w @ [Call_init base, Store_createSnapshot base, Call_execute cmd,
             Run (Some p) cmd, Call_finalize, Store_setDefault i]
           @ (if setDefault_succeeds E i then [] else [Store_delete i]) \<and>
         (setDefault_succeeds E i \<longrightarrow>
            processCommand E base (''execute'' # cmd) w =
              (Inr 0,
               w\<lparr>trace := trace w @ [Call_init base, Store_createSnapshot base,
                    Call_execute cmd, Run (Some p) cmd, Call_finalize, Store_setDefault i],
                 snapshots := (snapshots w)(i \<mapsto> p),
                 finalized := insert i (finalized w),
                 defaultSnapshot := i\<rparr>))"
  using assms by (simp add: command_defs seq_defs engine_defs store_defs)

theorem execute_zero_finalizes_witness:
  "processCommand env_ok ''active'' [''execute'', ''true''] world9 =
     (Inr 0,
      world9\<lparr>trace := [Call_init ''active'', Store_createSnapshot ''active'',
                 Call_execute [''true''], Run (Some ''/mnt/7'') [''true''], Call_finalize,
                 Store_setDefault ''7''],
        snapshots := [''9'' \<mapsto> ''/mnt/9'', ''7'' \<mapsto> ''/mnt/7''],
        finalized := {''7''},
        defaultSnapshot := ''7''\<rparr>)"
  using execute_zero_finalizes [of env_ok "''active''" "''7''" "''/mnt/7''" "[''true'']" world9]
  by (simp add: env_ok_def world9_def)

text \<open>
  C1 as stated fails where \<open>setDefault\<close> fails: the child ran and exited with 0,
  \<open>finalize\<close> was called, and yet the default snapshot is still 1, not the new snapshot 7.
\<close>

theorem execute_zero_not_default_counterexample:
  "run_child env_setDefault_fails (Some ''/mnt/7'') [''true''] = Exited 0 \<and>
   fst (processCommand env_setDefault_fails ''active'' [''execute'', ''true''] world9) =
     Inl FinalizeError \<and>
   take 5 (trace (snd (processCommand env_setDefault_fails ''active'' [''execute'', ''true'']
      world9))) =
     [Call_init ''active'', Store_createSnapshot ''active'', Call_execute [''true''],
      Run (Some ''/mnt/7'') [''true''], Call_finalize] \<and>
   defaultSnapshot (snd (processCommand env_setDefault_fails ''active'' [''execute'', ''true'']
      world9)) = ''1''"
  by (simp add: command_defs seq_defs engine_defs store_defs env_setDefault_fails_def env_ok_def world9_def)

text \<open>
  C2.  For every invocation of \<open>execute\<close> whose child exits with a non-zero status:
  \<open>finalize\<close> is not called, the \<^verbatim>\<open>runtime_error\<close> naming the status is propagated to the
  caller, the created snapshot is deleted by implicit disposal, and nothing else of the
  store changes, so the default snapshot is the one it was.
\<close>

theorem execute_nonzero_discards:
  assumes "createSnapshot_result E base = Some (i, p)"
    and "run_child E (Some p) cmd = Exited status"
    and "status \<noteq> 0"
  shows "processCommand E base (''execute'' # cmd) w =
           (Inl (RuntimeError (''Application returned with exit status '' @ to_string status)),
            w\<lparr>trace := trace w @ [Call_init base, Store_createSnapshot base, Call_execute cmd,
                 Run (Some p) cmd, Store_delete i],
              snapshots := (snapshots w)(i := None)\<rparr>)"
  using assms by (simp add: command_defs seq_defs engine_defs store_defs)

theorem execute_nonzero_discards_witness:
  "processCommand env_child_fails ''active'' [''execute'', ''false''] world9 =
     (Inl (RuntimeError ''Application returned with exit status 1''),
      world9\<lparr>trace := [Call_init ''active'', Store_createSnapshot ''active'',
                 Call_execute [''false''], Run (Some ''/mnt/7'') [''false''],
                 Store_delete ''7''],
        snapshots := [''9'' \<mapsto> ''/mnt/9'']\<rparr>) \<and>
   defaultSnapshot (snd (processCommand env_child_fails ''active'' [''execute'', ''false'']
     world9)) = ''1''"
  using execute_nonzero_discards
    [of env_child_fails "''active''" "''7''" "''/mnt/7''" "[''false'']" 1 world9]
  by (simp add: env_child_fails_def env_ok_def world9_def to_string_def dec.simps fun_upd_twist)

subsection \<open>The commands \<open>call\<close>, \<open>callext\<close> and \<open>abort\<close>\<close>



text \<open>
  For an identifier that cannot be resumed no child is started, and here too nothing is
  deleted or finalized: the world changes in its trace only.
\<close>

lemma call_and_callext_unknown_transaction:
  assumes "i \<noteq> []" and "i \<in> finalized w \<or> snapshots w i = None"
  shows "processCommand E base (''call'' # i # cmd) w =
           (Inl UnknownTransactionError,
            w\<lparr>trace := trace w @ [Call_resume i, Store_mountPathOf i]\<rparr>) \<and>
         processCommand E base (''callext'' # i # cmd) w =
           (Inl UnknownTransactionError,
            w\<lparr>trace := trace w @ [Call_resume i, Store_mountPathOf i]\<rparr>)"
  using assms
  by (cases "i \<in> finalized w")
    (simp_all add: command_defs seq_defs engine_defs store_defs Let_def)

text \<open>
  C4.  For every invocation of \<open>abort <id>\<close> on an existing, open transaction: the engine
  resumes the transaction, invokes neither \<open>finalize\<close> nor \<open>keep\<close>, implicit disposal at
  the end of the scope deletes the snapshot, and \<open>processCommand\<close> returns 0.
\<close>

theorem abort_deletes:
  assumes "i \<noteq> []" and "i \<notin> finalized w" and "snapshots w i = Some p"
  shows "processCommand E base (''abort'' # i # cmd) w =
           (Inr 0,
            w\<lparr>trace := trace w @ [Call_resume i, Store_mountPathOf i, Store_delete i],
              snapshots := (snapshots w)(i := None)\<rparr>)"
  using assms by (simp add: command_defs seq_defs engine_defs store_defs)

theorem abort_deletes_witness:
  "processCommand env_ok ''active'' [''abort'', ''9''] world9 =
     (Inr 0,
      world9\<lparr>trace := [Call_resume ''9'', Store_mountPathOf ''9'', Store_delete ''9''],
        snapshots := Map.empty\<rparr>)"
  using abort_deletes [of "''9''" world9 "''/mnt/9''" env_ok "''active''" "[]"]
  by (simp add: env_ok_def world9_def)

subsection \<open>\<open>resume\<close>, \<open>finalize\<close> and implicit disposal\<close>

text \<open>
  What the end of the scope does to a resumed transaction rests on the value \<open>resume\<close>
  gives \<open>retain\<close> and on the destructor, and neither is in the source.  With the wording
  of section 4.1 of the spec (\<open>resume\<close> sets \<open>retain = true\<close>) the end of the scope never
  deletes a resumed transaction, so \<open>abort\<close> could not delete anything; with \<open>resume\<close>
  as the driver needs it, the end of the scope deletes unless \<open>keep\<close> ran.
\<close>

lemma resume_retaining_never_disposed:
  assumes "resume_retaining i tx w = (Inr (), tx', w')"
  shows "dispose tx' w' = (tx', w')"
  using assms
  by (auto simp: resume_retaining_def dispose_def mountPathOf_def Let_def
      split: if_splits option.splits)

lemma resume_then_disposed:
  assumes "resume i tx w = (Inr (), tx', w')"
  shows "dispose tx' w' = (tx'\<lparr>state := Discarded\<rparr>, delete i w')"
  using assms
  by (auto simp: resume_def dispose_def mountPathOf_def Let_def
      split: if_splits option.splits)

text \<open>
  A \<open>finalize\<close> whose \<open>setDefault\<close> fails leaves the transaction as it was, surfaces
  \<open>FinalizeError\<close> and changes the world in its trace only.  Whether the snapshot outlives
  the scope after that is again the destructor's matter: it does when \<open>retain\<close> is set,
  and with the disposal rule of section 4.1 it does not otherwise.
\<close>

lemma finalize_failure_leaves_transaction:
  assumes "state tx = Open" and "snapshot_id tx = Some i" and "\<not> setDefault_succeeds E i"
  shows "finalize E tx w =
           (Inl FinalizeError, tx, w\<lparr>trace := trace w @ [Call_finalize, Store_setDefault i]\<rparr>) \<and>
         dispose tx w = (if retain tx then (tx, w) else (tx\<lparr>state := Discarded\<rparr>, delete i w))"
  using assms by (simp add: finalize_def dispose_def setDefault_def emit_def)

subsection \<open>Usage errors\<close>

text \<open>
  C8, as amended.  For a missing command \<open>processCommand\<close> raises \<^verbatim>\<open>invalid_argument\<close> with a
  message that points to \<^verbatim>\<open>--help\<close>; it does not print the usage text.  For an unknown
  command, and for a missing \<open><id>\<close> of \<open>call\<close> or \<open>callext\<close>, it prints the usage text and
  raises \<^verbatim>\<open>invalid_argument\<close>.  In each of these cases the function ends with the exception
  and the world changes in its trace only: no snapshot operation happens.
\<close>

theorem usage_errors:
  "processCommand E b [] w =
     (Inl (InvalidArgument ''Missing command. See --help for usage information.''), w) \<and>
   (arg \<notin> {''execute'', ''open'', ''call'', ''callext'', ''close'', ''abort''} \<longrightarrow>
      processCommand E b (arg # rest) w =
        (Inl (InvalidArgument (''Unknown command or option '' @ quoted arg @ ''.'')),
         w\<lparr>trace := trace w @ [DisplayHelp]\<rparr>)) \<and>
   processCommand E b [''call''] w =
     (Inl (InvalidArgument (''Missing argument for '' @ quoted ''call'')),
      w\<lparr>trace := trace w @ [DisplayHelp]\<rparr>) \<and>
   processCommand E b [''callext''] w =
     (Inl (InvalidArgument (''Missing argument for '' @ quoted ''callext'')),
      w\<lparr>trace := trace w @ [DisplayHelp]\<rparr>)"
  by (simp add: command_defs seq_defs engine_defs store_defs)

theorem usage_errors_witness:
  "processCommand env_ok ''active'' [''bogus'', ''9''] world9 =
     (Inl (InvalidArgument (''Unknown command or option '' @ quoted ''bogus'' @ ''.'')),
      world9\<lparr>trace := [DisplayHelp]\<rparr>)"
  using usage_errors
    [where E = env_ok and b = "''active''" and w = world9 and arg = "''bogus''"
      and rest = "[''9'']"]
  by (simp add: env_ok_def world9_def)

text \<open>
  C8 as stated fails for a missing command: the exception is raised, and nothing is
  printed, the usage text included.
\<close>

theorem missing_command_prints_no_usage_counterexample:
  "processCommand env_ok ''active'' [] world9 =
     (Inl (InvalidArgument ''Missing command. See --help for usage information.''), world9) \<and>
   DisplayHelp \<notin> set (trace (snd (processCommand env_ok ''active'' [] world9)))"
  by (simp add: command_defs seq_defs engine_defs store_defs env_ok_def world9_def)

text \<open>
  The branches \<open>close\<close> and \<open>abort\<close> lack the test for a missing \<open><id>\<close> that \<open>call\<close> and
  \<open>callext\<close> make: no usage text, no \<^verbatim>\<open>invalid_argument\<close>.
\<close>

lemma close_and_abort_without_id:
  "processCommand E b [''close''] w = (Inl NullString, w) \<and>
   processCommand E b [''abort''] w = (Inl NullString, w)"
  by (simp add: command_defs seq_defs engine_defs store_defs)

subsection \<open>The lock\<close>

text \<open>
  C7, the path on which the code does not do what the claim says.  The program is started
  with the command \<open>open\<close> while another instance holds the lock: the constructor of
  \<open>Lock\<close> throws after \<^verbatim>\<open>open\<close> and \<^verbatim>\<open>lockf\<close>; neither \<^verbatim>\<open>close\<close> nor \<^verbatim>\<open>remove\<close> is called, the
  lock file is still there and its descriptor is still open.
\<close>

theorem lock_file_left_when_lock_is_held:
  "fst (TUKit env_ok ''active'' [''tukit'', ''open''] world_locked) =
     Inl (RuntimeError ''Another instance of tukit is already running: EAGAIN'') \<and>
   trace (snd (TUKit env_ok ''active'' [''tukit'', ''open''] world_locked)) =
     [Signal_installed SIGINT, Signal_installed SIGHUP, Signal_installed SIGQUIT,
      Signal_installed SIGTERM, Lock_open, Lock_lockf] \<and>
   lockfile_exists (snd (TUKit env_ok ''active'' [''tukit'', ''open''] world_locked)) \<and>
   lockfile_fd_open (snd (TUKit env_ok ''active'' [''tukit'', ''open''] world_locked))"
  by (simp add: TUKit_def parseOptions_def startup_def install_handler_def lock_defs emit_def
      env_ok_def world_locked_def world9_def)

text \<open>
  Once the lock has been acquired, every way out of the constructor closes the descriptor
  and removes the lock file, as the last two things the program does.
\<close>

lemma lock_released_after_acquisition:
  assumes "parseOptions E b (startup w) = (ret, base, w1)" and "0 < ret"
    and "fst (Lock_ctor E w1) = Inr fd"
  shows "\<not> lockfile_exists (snd (TUKit E b argv w)) \<and>
         \<not> lockfile_fd_open (snd (TUKit E b argv w)) \<and>
         (\<exists>evs. trace (snd (TUKit E b argv w)) = evs @ [Lock_close, Lock_remove])"
proof -
  obtain w2 where l: "Lock_ctor E w1 = (Inr fd, w2)"
    using assms(3) by (cases "Lock_ctor E w1") auto
  have "\<exists>v. snd (TUKit E b argv w) = Lock_dtor v"
    using assms(1,2) l by (auto simp: TUKit_def Let_def split: prod.splits sum.splits)
  then obtain v where "snd (TUKit E b argv w) = Lock_dtor v" ..
  then show ?thesis
    by (simp add: Lock_dtor_def sys_close_def sys_remove_def emit_def)
qed

text \<open>
  What \<open>processCommand\<close> returns is what the constructor passes on: an exception as it is,
  a non-zero status as a thrown \<^verbatim>\<open>int\<close>, and 0 as normal completion.
\<close>

lemma TUKit_passes_status_on:
  assumes "parseOptions E b (startup w) = (ret, base, w1)" and "0 < ret"
    and "Lock_ctor E w1 = (Inr fd, w2)"
    and "processCommand E base (drop (nat ret) argv)
           (emit (Log INFO (''Options: '' @ concat (map (\<lambda>a. a @ '' '') (tl argv))))
              (emit (Log INFO (''tukit '' @ VERSION E @ '' started'')) w2)) = (r, w3)"
  shows "fst (TUKit E b argv w) =
           (case r of
              Inl e \<Rightarrow> Inl e
            | Inr status \<Rightarrow> if status = 0 then Inr () else Inl (ThrowInt status))"
  using assms by (simp add: TUKit_def Let_def split: sum.splits)

subsection \<open>Frames\<close>

lemma quiet_refl: "quiet w w"
  by (simp add: quiet_def)

lemma quiet_trans: "quiet w1 w2 \<Longrightarrow> quiet w2 w3 \<Longrightarrow> quiet w1 w3"
  by (auto simp: quiet_def)

lemma quiet_emit: "\<not> is_signal_event e \<Longrightarrow> quiet w (emit e w)"
  by (simp add: quiet_def emit_def)

lemma quiet_then_emit: "quiet w0 w \<Longrightarrow> \<not> is_signal_event e \<Longrightarrow> quiet w0 (emit e w)"
  by (blast intro: quiet_trans quiet_emit)

lemma quiet_return: "quiet_comp (return x)"
  by (simp add: quiet_comp_def return_def quiet_refl)

lemma quiet_throw: "quiet_comp (throw e)"
  by (simp add: quiet_comp_def throw_def quiet_refl)

lemma quiet_and_then:
  assumes "quiet_comp m" and "\<And>x. quiet_comp (f x)"
  shows "quiet_comp (and_then m f)"
  unfolding quiet_comp_def
proof (intro allI)
  fix tx w
  obtain r tx1 w1 where m: "m tx w = (r, tx1, w1)"
    by (cases "m tx w") auto
  have q1: "quiet w w1"
    using assms(1) [unfolded quiet_comp_def, rule_format, of w tx] m by simp
  show "quiet w (snd (snd (and_then m f tx w)))"
  proof (cases r)
    case (Inl e)
    then show ?thesis using m q1 by (simp add: and_then_def)
  next
    case (Inr x)
    have "quiet w1 (snd (snd (f x tx1 w1)))"
      using assms(2) [of x] by (simp add: quiet_comp_def)
    then show ?thesis using m Inr q1 by (auto simp: and_then_def intro: quiet_trans)
  qed
qed

lemma quiet_init: "quiet_comp (init E b)"
  by (auto simp: quiet_comp_def quiet_def init_def store_defs Let_def split: option.splits)

lemma quiet_resume: "quiet_comp (resume i)"
  by (auto simp: quiet_comp_def quiet_def resume_def store_defs Let_def split: option.splits)

lemma quiet_execute: "quiet_comp (execute E cmd)"
  by (auto simp: quiet_comp_def quiet_def execute_def store_defs Let_def split: run_result.splits)

lemma quiet_callExt: "quiet_comp (callExt E cmd)"
  by (auto simp: quiet_comp_def quiet_def callExt_def store_defs Let_def split: run_result.splits)

lemma quiet_finalize: "quiet_comp (finalize E)"
  by (auto simp: quiet_comp_def quiet_def finalize_def store_defs Let_def split: tstate.splits option.splits)

lemma quiet_keep: "quiet_comp keep"
  by (auto simp: quiet_comp_def quiet_def keep_def store_defs Let_def)

lemma quiet_getSnapshot: "quiet_comp getSnapshot"
  by (auto simp: quiet_comp_def quiet_def getSnapshot_def store_defs Let_def split: option.splits)

lemma quiet_effect_emit: "\<not> is_signal_event e \<Longrightarrow> quiet_comp (effect (emit e))"
  by (simp add: quiet_comp_def effect_def quiet_emit)

lemma quiet_effect_displayHelp: "quiet_comp (effect displayHelp)"
  by (simp add: quiet_comp_def effect_def quiet_emit displayHelp_def)

lemma quiet_dispose: "quiet w (snd (dispose tx w))"
  by (auto simp: quiet_def dispose_def store_defs split: tstate.splits option.splits bool.splits)

lemma quiet_if: "quiet_comp m \<Longrightarrow> quiet_comp n \<Longrightarrow> quiet_comp (if c then m else n)"
  by simp

lemmas quiet_intros = quiet_if quiet_and_then quiet_return quiet_throw quiet_init quiet_resume quiet_execute
  quiet_callExt quiet_finalize quiet_keep quiet_getSnapshot quiet_effect_emit quiet_effect_displayHelp

lemma quiet_processCommand_body: "quiet_comp (processCommand_body E b argv)"
proof (cases argv)
  case Nil
  then show ?thesis by (simp add: processCommand_body_def quiet_throw)
next
  case (Cons arg rest)
  show ?thesis
  proof (cases rest)
    case Nil
    with Cons show ?thesis
      by (simp add: processCommand_body_def) (intro conjI impI quiet_intros; simp)
  next
    case (Cons i cmd)
    with \<open>argv = arg # rest\<close> show ?thesis
      by (simp add: processCommand_body_def) (intro conjI impI quiet_intros; simp)
  qed
qed

lemma quiet_processCommand: "quiet w (snd (processCommand E b argv w))"
proof -
  obtain r tx w1 where b: "processCommand_body E b argv new_transaction w = (r, tx, w1)"
    by (cases "processCommand_body E b argv new_transaction w") auto
  have "quiet w w1"
    using quiet_processCommand_body [unfolded quiet_comp_def, rule_format, of w E b argv new_transaction] b
    by simp
  moreover have "quiet w1 (snd (dispose tx w1))"
    by (rule quiet_dispose)
  ultimately show ?thesis
    using b by (auto simp: processCommand_def intro: quiet_trans)
qed

lemma quiet_parseOptions_loop: "quiet w (snd (snd (parseOptions_loop E gs b w)))"
proof (induction gs arbitrary: b w)
  case Nil
  show ?case by (simp add: quiet_refl)
next
  case (Cons g gs)
  obtain c optarg where g: "g = (c, optarg)" by (cases g)
  have lev: "\<And>l. quiet w (w\<lparr>level := l\<rparr>)" by (simp add: quiet_def)
  show ?case
    using Cons.IH lev unfolding g
    by (auto simp: displayHelp_def intro: quiet_emit quiet_trans)
qed

lemma quiet_Lock_ctor: "quiet w (snd (Lock_ctor E w))"
  by (auto simp: quiet_def Lock_ctor_def sys_open_def sys_lockf_def emit_def)

lemma quiet_Lock_dtor: "quiet w (Lock_dtor w)"
  by (auto simp: quiet_def Lock_dtor_def sys_close_def sys_remove_def emit_def)

lemma quiet_TUKit: "quiet (startup w) (snd (TUKit E b argv w))"
proof -
  obtain ret base w1 where p: "parseOptions E b (startup w) = (ret, base, w1)"
    by (cases "parseOptions E b (startup w)") auto
  have q1: "quiet (startup w) w1"
    using quiet_parseOptions_loop [of "startup w" E "getopt_results E" b] p
    by (simp add: parseOptions_def)
  show ?thesis
  proof (cases "ret \<le> 0")
    case True
    then show ?thesis using p q1 by (simp add: TUKit_def)
  next
    case False
    obtain l w2 where l: "Lock_ctor E w1 = (l, w2)" by (cases "Lock_ctor E w1") auto
    have q2: "quiet (startup w) w2"
      using quiet_Lock_ctor [of w1 E] l q1 by (auto intro: quiet_trans)
    show ?thesis
    proof (cases l)
      case (Inl e)
      then show ?thesis using p l q2 False by (simp add: TUKit_def)
    next
      case (Inr fd)
      define w4 where "w4 = emit (Log INFO (''Options: '' @ concat (map (\<lambda>a. a @ '' '') (tl argv))))
         (emit (Log INFO (''tukit '' @ VERSION E @ '' started'')) w2)"
      have q4: "quiet (startup w) w4"
        unfolding w4_def by (intro quiet_then_emit q2) simp_all
      obtain r w5 where c: "processCommand E base (drop (nat ret) argv) w4 = (r, w5)"
        by (cases "processCommand E base (drop (nat ret) argv) w4") auto
      have q5: "quiet (startup w) w5"
        using quiet_processCommand [of w4 E base "drop (nat ret) argv"] c q4
        by (auto intro: quiet_trans)
      have q6: "quiet (startup w) (Lock_dtor w5)"
        using q5 quiet_Lock_dtor by (blast intro: quiet_trans)
      have "quiet (startup w) (emit (Log INFO ''Transaction completed.'') w5)"
        by (intro quiet_then_emit q5) simp
      then have q7: "quiet (startup w) (Lock_dtor (emit (Log INFO ''Transaction completed.'') w5))"
        using quiet_Lock_dtor by (blast intro: quiet_trans)
      show ?thesis
        using p l Inr False c q6 q7 unfolding TUKit_def w4_def [symmetric]
        by (auto simp: Let_def w4_def split: sum.splits)
    qed
  qed
qed

lemma idle_refl: "idle w w"
  by (simp add: idle_def)

lemma idle_trans: "idle w1 w2 \<Longrightarrow> idle w2 w3 \<Longrightarrow> idle w1 w3"
  by (simp add: idle_def)

lemma idle_emit: "\<not> is_engine_event e \<Longrightarrow> idle w (emit e w)"
  by (simp add: idle_def emit_def)

lemma idle_startup: "idle w (startup w)"
  by (simp add: idle_def startup_def install_handler_def emit_def)

lemma idle_parseOptions_loop: "idle w (snd (snd (parseOptions_loop E gs b w)))"
proof (induction gs arbitrary: b w)
  case Nil
  show ?case by (simp add: idle_refl)
next
  case (Cons g gs)
  obtain c optarg where g: "g = (c, optarg)" by (cases g)
  have lev: "\<And>l. idle w (w\<lparr>level := l\<rparr>)" by (simp add: idle_def)
  show ?case
    using Cons.IH lev unfolding g
    by (auto simp: displayHelp_def intro: idle_emit idle_trans)
qed

lemma Lock_ctor_when_held:
  assumes "lock_held_by w = Other"
  shows "Lock_ctor E w =
           (if open_result E < 0 then
              (Inl (RuntimeError (''Could not create lock file '' @ quoted (LOCKFILE E) @ '': ''
                      @ strerror_errno E)),
               w\<lparr>trace := trace w @ [Lock_open]\<rparr>)
            else
              (Inl (RuntimeError (''Another instance of tukit is already running: ''
                      @ strerror_errno E)),
               w\<lparr>trace := trace w @ [Lock_open, Lock_lockf], lockfile_exists := True,
                 lockfile_fd_open := True\<rparr>))"
  using assms by (simp add: lock_defs emit_def)

subsection \<open>Mutual exclusion and signals\<close>

text \<open>
  C9, as amended.  An instance started while another instance holds the lock always leaves
  the constructor by an exception, never calls the transaction engine and performs no
  snapshot operation: the store is the one it was and no engine event is in its trace.
  When it gets as far as the lock (option parsing returned the index of a command and the
  lock file could be opened) it fails with the \<^verbatim>\<open>runtime_error\<close> "Another instance of tukit
  is already running", and \<^verbatim>\<open>open\<close> and \<^verbatim>\<open>lockf\<close> are all it did after option parsing:
  \<open>processCommand\<close> is not reached.
\<close>

theorem second_instance_stops_at_the_lock:
  assumes "lock_held_by w = Other"
  shows "fst (TUKit E b argv w) \<noteq> Inr () \<and>
         filter is_engine_event (trace (snd (TUKit E b argv w))) =
           filter is_engine_event (trace w) \<and>
         snapshots (snd (TUKit E b argv w)) = snapshots w \<and>
         finalized (snd (TUKit E b argv w)) = finalized w \<and>
         defaultSnapshot (snd (TUKit E b argv w)) = defaultSnapshot w \<and>
         (0 < fst (parseOptions E b (startup w)) \<and> 0 \<le> open_result E \<longrightarrow>
            TUKit E b argv w =
              (Inl (RuntimeError (''Another instance of tukit is already running: ''
                      @ strerror_errno E)),
               (snd (snd (parseOptions E b (startup w))))
                 \<lparr>trace := trace (snd (snd (parseOptions E b (startup w))))
                    @ [Lock_open, Lock_lockf],
                  lockfile_exists := True, lockfile_fd_open := True\<rparr>))"
proof -
  obtain ret base w1 where p: "parseOptions E b (startup w) = (ret, base, w1)"
    by (cases "parseOptions E b (startup w)") auto
  have "idle (startup w) w1"
    using idle_parseOptions_loop [of "startup w" E "getopt_results E" b] p
    by (simp add: parseOptions_def)
  then have i1: "idle w w1"
    using idle_startup idle_trans by blast
  then have held: "lock_held_by w1 = Other"
    using assms by (simp add: idle_def)
  show ?thesis
  proof (cases "ret \<le> 0")
    case True
    then show ?thesis
      using p i1 by (simp add: TUKit_def idle_def)
  next
    case False
    then show ?thesis
      using p i1 Lock_ctor_when_held [OF held, of E]
      by (simp add: TUKit_def idle_def)
  qed
qed

theorem second_instance_stops_at_the_lock_witness:
  "TUKit env_verbose ''active'' [''tukit'', ''-v'', ''abort'', ''9''] world_locked =
     (Inl (RuntimeError ''Another instance of tukit is already running: EAGAIN''),
      (startup world_locked)\<lparr>level := DEBUG,
         trace := trace (startup world_locked) @ [Lock_open, Lock_lockf],
         lockfile_exists := True, lockfile_fd_open := True\<rparr>) \<and>
   snapshots (snd (TUKit env_verbose ''active'' [''tukit'', ''-v'', ''abort'', ''9'']
     world_locked)) ''9'' = Some ''/mnt/9''"
  using second_instance_stops_at_the_lock
    [of world_locked env_verbose "''active''" "[''tukit'', ''-v'', ''abort'', ''9'']"]
  by (simp add: env_verbose_def env_ok_def world_locked_def world9_def parseOptions_def startup_def install_handler_def emit_def)

text \<open>
  C9 as stated fails for an instance that ends before \<^verbatim>\<open>lockf\<close>: while another instance
  holds the lock, one that cannot open the lock file fails with "Could not create lock
  file", and one started with \<^verbatim>\<open>--help\<close> prints the usage text and throws 0.
\<close>

theorem second_instance_other_failure_counterexample:
  "lock_held_by world_locked = Other \<and>
   fst (TUKit env_open_fails ''active'' [''tukit'', ''open''] world_locked) =
     Inl (RuntimeError (''Could not create lock file '' @ quoted ''/var/run/tukit.lock''
            @ '': Permission denied'')) \<and>
   TUKit env_help ''active'' [''tukit'', ''--help''] world_locked =
     (Inl (ThrowInt 0),
      (startup world_locked)\<lparr>trace := trace (startup world_locked) @ [DisplayHelp]\<rparr>)"
  by (simp add: TUKit_def parseOptions_def displayHelp_def startup_def install_handler_def
      lock_defs emit_def env_open_fails_def env_help_def env_ok_def world_locked_def world9_def)

text \<open>
  C10.  In every run of the constructor the handlers for \<^verbatim>\<open>SIGINT\<close>, \<^verbatim>\<open>SIGHUP\<close>, \<^verbatim>\<open>SIGQUIT\<close> and
  \<^verbatim>\<open>SIGTERM\<close> are installed first, in that order, and no handler is installed afterwards:
  each is installed exactly once, before the lock is touched and before any transaction
  logic runs.  The dispositions set there are still in place when the constructor ends,
  and with them the delivery of any of the four signals does not end the process: it runs
  \<open>interrupt\<close>, which adds one call of \<^verbatim>\<open>tulog.debug\<close> and changes nothing else.
\<close>

theorem signal_handlers_installed_first:
  "(\<exists>rest.
      trace (snd (TUKit E b argv w)) =
        trace w @ [Signal_installed SIGINT, Signal_installed SIGHUP, Signal_installed SIGQUIT,
          Signal_installed SIGTERM] @ rest \<and>
      filter is_signal_event rest = []) \<and>
   handlers (snd (TUKit E b argv w)) =
     (handlers w)(SIGINT := Handler_interrupt, SIGHUP := Handler_interrupt,
       SIGQUIT := Handler_interrupt, SIGTERM := Handler_interrupt) \<and>
   (\<forall>v sig. handlers v = handlers (snd (TUKit E b argv w)) \<and>
        sig \<in> {SIGINT, SIGHUP, SIGQUIT, SIGTERM} \<longrightarrow>
      deliver sig v =
        Some (v\<lparr>trace := trace v @ [Log DEBUG (''tukit: Received signal '' @ to_string sig)]\<rparr>))"
proof -
  let ?w' = "snd (TUKit E b argv w)"
  have q: "quiet (startup w) ?w'"
    by (rule quiet_TUKit)
  have t0: "trace (startup w) =
      trace w @ [Signal_installed SIGINT, Signal_installed SIGHUP, Signal_installed SIGQUIT,
        Signal_installed SIGTERM]"
    by (simp add: startup_def install_handler_def emit_def)
  have h0: "handlers (startup w) =
      (handlers w)(SIGINT := Handler_interrupt, SIGHUP := Handler_interrupt,
        SIGQUIT := Handler_interrupt, SIGTERM := Handler_interrupt)"
    by (simp add: startup_def install_handler_def emit_def)
  from q obtain rest where r: "trace ?w' = trace (startup w) @ rest"
    by (auto simp: quiet_def prefix_def)
  from q have "filter is_signal_event (trace ?w') = filter is_signal_event (trace (startup w))"
    by (simp add: quiet_def)
  then have "filter is_signal_event rest = []"
    using r by simp
  then have first: "\<exists>rest.
      trace ?w' =
        trace w @ [Signal_installed SIGINT, Signal_installed SIGHUP, Signal_installed SIGQUIT,
          Signal_installed SIGTERM] @ rest \<and>
      filter is_signal_event rest = []"
    using r t0 by simp
  have h: "handlers ?w' =
      (handlers w)(SIGINT := Handler_interrupt, SIGHUP := Handler_interrupt,
        SIGQUIT := Handler_interrupt, SIGTERM := Handler_interrupt)"
    using q h0 by (simp add: quiet_def)
  have d: "deliver sig v =
      Some (v\<lparr>trace := trace v @ [Log DEBUG (''tukit: Received signal '' @ to_string sig)]\<rparr>)"
    if "handlers v = handlers ?w'" and "sig \<in> {SIGINT, SIGHUP, SIGQUIT, SIGTERM}" for v sig
  proof -
    have "handlers v sig = Handler_interrupt"
      using that h by auto
    then show ?thesis
      by (simp add: deliver_def interrupt_def emit_def)
  qed
  show ?thesis
    using first h d by blast
qed

theorem signal_handlers_installed_first_witness:
  "deliver SIGTERM (snd (TUKit env_ok ''active'' [''tukit'', ''open''] world9)) =
     Some ((snd (TUKit env_ok ''active'' [''tukit'', ''open''] world9))
       \<lparr>trace := trace (snd (TUKit env_ok ''active'' [''tukit'', ''open''] world9))
          @ [Log DEBUG ''tukit: Received signal 15'']\<rparr>) \<and>
   deliver SIGTERM world9 = None"
proof -
  let ?w = "snd (TUKit env_ok ''active'' [''tukit'', ''open''] world9)"
  have "SIGTERM \<in> {SIGINT, SIGHUP, SIGQUIT, SIGTERM}"
    by simp
  then have "deliver SIGTERM ?w =
      Some (?w\<lparr>trace := trace ?w @ [Log DEBUG (''tukit: Received signal '' @ to_string SIGTERM)]\<rparr>)"
    using signal_handlers_installed_first [of env_ok "''active''" "[''tukit'', ''open'']" world9]
    by blast
  moreover have "to_string SIGTERM = ''15''"
    by (simp add: SIGTERM_def to_string_def dec.simps)
  moreover have "deliver SIGTERM world9 = None"
    by (simp add: deliver_def world9_def)
  ultimately show ?thesis
    by simp
qed

end
